theory Spec2Isabelle
  imports Main "HOL-Library.AList"
begin

section \<open>The Go service (services/go-service/main.go)\<close>

text \<open>
  The handlers of the Go service write to two places: the \<open>http.ResponseWriter\<close> of the
  request, and the process-wide telemetry (the tracer's spans, the standard logger, the
  counter \<open>requestCounter\<close> and the histogram \<open>requestDuration\<close>). Both are records
  here, and a handler is a function from the pair to the pair. What a handler reads from
  outside (the wall clock, the random sleep) is the record \<open>go_env\<close>.
\<close>

subsection \<open>Data\<close>

datatype attr_value = AttrString string | AttrBool bool

type_synonym attribute = "string \<times> attr_value"

text \<open>
  Values of \<open>map[string]interface{}\<close> as \<open>encoding/json\<close> writes them. An object is the
  list of its members in the order of the source (the encoder writes the keys of a map
  sorted).
\<close>

datatype json = JNum int | JStr string | JArr "json list" | JObj "(string \<times> json) list"

record span =
  span_name :: string
  span_attributes :: "attribute list"
  span_ended :: bool

text \<open>A valid span context found in \<open>r.Context()\<close>: trace id and span id, as hex strings.\<close>

record span_context =
  trace_id :: string
  span_id :: string

record request =
  req_method :: string
  req_path :: string
  req_ctx :: "span_context option"

record response_writer =
  rw_header :: "(string \<times> string) list"
  rw_status :: "nat option"
  rw_body :: "json list"

record telemetry =
  spans :: "span list"
  log_lines :: "(string \<times> json) list list"
  requestCounter :: "(int \<times> attribute list) list"
  requestDuration :: "(int \<times> attribute list) list"

text \<open>
  \<open>timestamp_rfc3339\<close> and \<open>unix_time\<close> are what \<open>time.Now()\<close> gives, \<open>elapsed_ns\<close> is
  \<open>time.Since(start)\<close> as a \<open>time.Duration\<close> (nanoseconds; the histogram gets it
  converted to seconds, a float64, which is kept here as the duration itself).
\<close>

record go_env =
  timestamp_rfc3339 :: string
  unix_time :: int
  elapsed_ns :: int

subsection \<open>The library calls the handlers make\<close>

text \<open>\<open>tracer.Start\<close>: a new span, not ended; the handle is its index. A handler's
  \<open>defer span.End()\<close> runs when the handler returns, so it is the last step of its
  model.\<close>

definition tracer_Start :: "string \<Rightarrow> telemetry \<Rightarrow> nat \<times> telemetry" where
  "tracer_Start name t =
     (length (spans t),
      t\<lparr>spans := spans t @ [\<lparr>span_name = name, span_attributes = [], span_ended = False\<rparr>]\<rparr>)"

definition SetAttributes :: "nat \<Rightarrow> attribute list \<Rightarrow> telemetry \<Rightarrow> telemetry" where
  "SetAttributes sp kvs t =
     (if sp < length (spans t)
      then t\<lparr>spans := (spans t)[sp := (spans t ! sp)
             \<lparr>span_attributes := span_attributes (spans t ! sp) @ kvs\<rparr>]\<rparr>
      else t)"

definition span_End :: "nat \<Rightarrow> telemetry \<Rightarrow> telemetry" where
  "span_End sp t =
     (if sp < length (spans t)
      then t\<lparr>spans := (spans t)[sp := (spans t ! sp)\<lparr>span_ended := True\<rparr>]\<rparr>
      else t)"

definition Counter_Add :: "int \<Rightarrow> attribute list \<Rightarrow> telemetry \<Rightarrow> telemetry" where
  "Counter_Add incr kvs t = t\<lparr>requestCounter := requestCounter t @ [(incr, kvs)]\<rparr>"

definition Histogram_Record :: "int \<Rightarrow> attribute list \<Rightarrow> telemetry \<Rightarrow> telemetry" where
  "Histogram_Record v kvs t = t\<lparr>requestDuration := requestDuration t @ [(v, kvs)]\<rparr>"

text \<open>\<open>w.Header().Set\<close>, \<open>w.WriteHeader\<close> (only the first call counts) and
  \<open>json.NewEncoder(w).Encode\<close> (a write; the first write sends status 200 when no header
  was written).\<close>

definition Header_Set :: "string \<Rightarrow> string \<Rightarrow> response_writer \<Rightarrow> response_writer" where
  "Header_Set k v w = w\<lparr>rw_header := AList.update k v (rw_header w)\<rparr>"

definition WriteHeader :: "nat \<Rightarrow> response_writer \<Rightarrow> response_writer" where
  "WriteHeader code w = (case rw_status w of None \<Rightarrow> w\<lparr>rw_status := Some code\<rparr> | Some _ \<Rightarrow> w)"

definition Encode :: "json \<Rightarrow> response_writer \<Rightarrow> response_writer" where
  "Encode v w = (WriteHeader 200 w)\<lparr>rw_body := rw_body w @ [v]\<rparr>"

text \<open>\<open>fmt.Sprintf("%d", i)\<close>.\<close>

fun digits_of :: "nat \<Rightarrow> string" where
  "digits_of n =
     (if n < 10 then [char_of (48 + n)]
      else digits_of (n div 10) @ [char_of (48 + n mod 10)])"

definition Sprintf_d :: "int \<Rightarrow> string" where
  "Sprintf_d i = (if i < 0 then CHR ''-'' # digits_of (nat (- i)) else digits_of (nat i))"

subsection \<open>logJSON\<close>

text \<open>
  The entry is a Go map: assigning a key that is there replaces its value
  (\<open>AList.update\<close>). The trace and span ids are those of the span in the context passed
  in, when it is valid.
\<close>

definition log_entry ::
  "go_env \<Rightarrow> span_context option \<Rightarrow> string \<Rightarrow> string \<Rightarrow> (string \<times> json) list \<Rightarrow>
   (string \<times> json) list" where
  "log_entry env ctx level message fields' =
     (let logEntry = [(''timestamp'', JStr (timestamp_rfc3339 env)),
                      (''level'', JStr level),
                      (''message'', JStr message),
                      (''service'', JStr ''go-service'')];
          logEntry = (case ctx of
                        None \<Rightarrow> logEntry
                      | Some spanCtx \<Rightarrow>
                          AList.update ''span_id'' (JStr (span_id spanCtx))
                            (AList.update ''trace_id'' (JStr (trace_id spanCtx)) logEntry))
      in fold (\<lambda>(k, v). AList.update k v) fields' logEntry)"

definition logJSON ::
  "go_env \<Rightarrow> span_context option \<Rightarrow> string \<Rightarrow> string \<Rightarrow> (string \<times> json) list \<Rightarrow>
   telemetry \<Rightarrow> telemetry" where
  "logJSON env ctx level message fields' t =
     t\<lparr>log_lines := log_lines t @ [log_entry env ctx level message fields']\<rparr>"

subsection \<open>The handlers\<close>

definition rootHandler ::
  "go_env \<Rightarrow> request \<Rightarrow> response_writer \<times> telemetry \<Rightarrow> response_writer \<times> telemetry" where
  "rootHandler env r wt =
     (let (w, t) = wt;
          ctx = req_ctx r;
          (span, t) = tracer_Start ''root_handler'' t;
          t = SetAttributes span
                [(''http.method'', AttrString ''GET''), (''http.route'', AttrString ''/'')] t;
          t = logJSON env ctx ''INFO'' ''Processing root request'' [] t;
          response = JObj [(''service'', JStr ''go''),
                           (''message'', JStr ''Hello from Go service!''),
                           (''timestamp'', JNum (unix_time env))];
          w = Header_Set ''Content-Type'' ''application/json'' w;
          w = Encode response w;
          t = Counter_Add 1
                [(''method'', AttrString ''GET''), (''endpoint'', AttrString ''/'')] t;
          t = Histogram_Record (elapsed_ns env)
                [(''method'', AttrString ''GET''), (''endpoint'', AttrString ''/'')] t;
          t = span_End span t
      in (w, t))"

text \<open>
  The loop of \<open>dataHandler\<close> that fills the slice \<open>data\<close>, made with length 10. The
  sleep of the simulated query before it changes nothing of the state.
\<close>

function fill_data :: "nat \<Rightarrow> json list \<Rightarrow> json list" where
  "fill_data i data =
     (if i < 10
      then fill_data (i + 1)
             (data[i := JObj [(''id'', JNum (int i)),
                              (''value'', JStr (''item-'' @ Sprintf_d (int i)))]])
      else data)"
  by pat_completeness auto
termination
  by (relation "measure (\<lambda>(i, data). 10 - i)") auto

definition dataHandler ::
  "go_env \<Rightarrow> request \<Rightarrow> response_writer \<times> telemetry \<Rightarrow> response_writer \<times> telemetry" where
  "dataHandler env r wt =
     (let (w, t) = wt;
          ctx = req_ctx r;
          (span, t) = tracer_Start ''get_data_handler'' t;
          t = SetAttributes span
                [(''http.method'', AttrString ''GET''), (''http.route'', AttrString ''/data'')] t;
          t = logJSON env ctx ''INFO'' ''Fetching data'' [] t;
          (dbSpan, t) = tracer_Start ''database_query'' t;
          data = fill_data 0 (replicate 10 (JObj []));
          t = span_End dbSpan t;
          t = logJSON env ctx ''INFO'' ''Retrieved items''
                [(''item_count'', JNum (int (length data)))] t;
          response = JObj [(''data'', JArr data), (''count'', JNum (int (length data)))];
          w = Header_Set ''Content-Type'' ''application/json'' w;
          w = Encode response w;
          t = Counter_Add 1
                [(''method'', AttrString ''GET''), (''endpoint'', AttrString ''/data'')] t;
          t = Histogram_Record (elapsed_ns env)
                [(''method'', AttrString ''GET''), (''endpoint'', AttrString ''/data'')] t;
          t = span_End span t
      in (w, t))"

definition errorHandler ::
  "go_env \<Rightarrow> request \<Rightarrow> response_writer \<times> telemetry \<Rightarrow> response_writer \<times> telemetry" where
  "errorHandler env r wt =
     (let (w, t) = wt;
          ctx = req_ctx r;
          (span, t) = tracer_Start ''error_handler'' t;
          t = SetAttributes span
                [(''http.method'', AttrString ''GET''), (''http.route'', AttrString ''/error''),
                 (''error'', AttrBool True)] t;
          t = logJSON env ctx ''ERROR'' ''Simulated error occurred''
                [(''error_type'', JStr ''SimulatedError'')] t;
          t = Counter_Add 1
                [(''method'', AttrString ''GET''), (''endpoint'', AttrString ''/error''),
                 (''status'', AttrString ''error'')] t;
          w = Header_Set ''Content-Type'' ''application/json'' w;
          w = WriteHeader 500 w;
          w = Encode (JObj [(''error'', JStr ''This is a simulated error'')]) w;
          t = span_End span t
      in (w, t))"

text \<open>
  The routes of \<open>main\<close>: \<open>http.ServeMux\<close> gives a path to the handler of the longest
  pattern that matches it, and the pattern \<open>/\<close> matches every path.
\<close>

definition mux ::
  "go_env \<Rightarrow> request \<Rightarrow> response_writer \<times> telemetry \<Rightarrow> response_writer \<times> telemetry" where
  "mux env r =
     (if req_path r = ''/data'' then dataHandler env r
      else if req_path r = ''/error'' then errorHandler env r
      else rootHandler env r)"

text \<open>
  \<open>enableCORS\<close>, and the server as \<open>main\<close> builds it, on a writer nothing was written
  to. (\<open>otelhttp.NewHandler\<close>, between the two, is the library's: the span it opens is
  the one a handler finds in \<open>r.Context()\<close>.)
\<close>

definition enableCORS ::
  "(request \<Rightarrow> response_writer \<times> telemetry \<Rightarrow> response_writer \<times> telemetry) \<Rightarrow>
   request \<Rightarrow> response_writer \<times> telemetry \<Rightarrow> response_writer \<times> telemetry" where
  "enableCORS next_handler r wt =
     (let (w, t) = wt;
          w = Header_Set ''Access-Control-Allow-Origin'' ''*'' w;
          w = Header_Set ''Access-Control-Allow-Methods'' ''GET, POST, OPTIONS'' w;
          w = Header_Set ''Access-Control-Allow-Headers'' ''*'' w
      in if req_method r = ''OPTIONS'' then (WriteHeader 200 w, t)
         else next_handler r (w, t))"

definition fresh_writer :: response_writer where
  "fresh_writer = \<lparr>rw_header = [], rw_status = None, rw_body = []\<rparr>"

definition serve :: "go_env \<Rightarrow> request \<Rightarrow> telemetry \<Rightarrow> response_writer \<times> telemetry" where
  "serve env r t = enableCORS (mux env) r (fresh_writer, t)"

text \<open>The writer as \<open>enableCORS\<close> passes it on to the handlers.\<close>

definition cors_writer :: response_writer where
  "cors_writer =
     \<lparr>rw_header = [(''Access-Control-Allow-Origin'', ''*''),
                   (''Access-Control-Allow-Methods'', ''GET, POST, OPTIONS''),
                   (''Access-Control-Allow-Headers'', ''*'')],
      rw_status = None, rw_body = []\<rparr>"

definition GET :: "string \<Rightarrow> request \<Rightarrow> request" where
  "GET path r = r\<lparr>req_method := ''GET'', req_path := path\<rparr>"

text \<open>What one call of a handler added to the telemetry \<open>t\<close>, given the telemetry after.\<close>

definition new_spans :: "telemetry \<Rightarrow> telemetry \<Rightarrow> span list" where
  "new_spans t t' = drop (length (spans t)) (spans t')"

definition new_logs :: "telemetry \<Rightarrow> telemetry \<Rightarrow> (string \<times> json) list list" where
  "new_logs t t' = drop (length (log_lines t)) (log_lines t')"

definition new_counts :: "telemetry \<Rightarrow> telemetry \<Rightarrow> (int \<times> attribute list) list" where
  "new_counts t t' = drop (length (requestCounter t)) (requestCounter t')"

definition new_durations :: "telemetry \<Rightarrow> telemetry \<Rightarrow> (int \<times> attribute list) list" where
  "new_durations t t' = drop (length (requestDuration t)) (requestDuration t')"

text \<open>A server that has handled nothing yet, and inputs to try the handlers on.\<close>

definition no_telemetry :: telemetry where
  "no_telemetry = \<lparr>spans = [], log_lines = [], requestCounter = [], requestDuration = []\<rparr>"

definition sample_env :: go_env where
  "sample_env = \<lparr>timestamp_rfc3339 = ''2024-01-01T00:00:00Z'', unix_time = 1704067200,
                  elapsed_ns = 1500000\<rparr>"

definition sample_request :: request where
  "sample_request =
     \<lparr>req_method = ''GET'', req_path = ''/'',
      req_ctx = Some \<lparr>trace_id = ''4bf92f3577b34da6a3ce929d0e0e4736'',
                      span_id = ''00f067aa0ba902b7''\<rparr>\<rparr>"

section \<open>The traffic generator (generate-traffic.sh)\<close>

text \<open>
  The script reads three things from outside: the clock (\<open>date +%s\<close>), the shell's
  \<open>$RANDOM\<close> (a value from 0 to 32767) and what each \<open>curl\<close> run prints and returns.
  They are functions of the number of reads made before. The state of the script is
  the record \<open>sched\<close>: how often the clock and \<open>$RANDOM\<close> were read, the endpoints
  \<open>curl\<close> was run on so far (one entry for every HTTP request issued), the variable
  \<open>request_count\<close>, and what was printed. The script runs under \<open>set -e\<close>: a result
  \<open>Inl status\<close> is the script leaving with that status because a command failed.
  Shell arithmetic is on unbounded integers here; \<open>sleep\<close> changes nothing of the state.
\<close>

record sh_env =
  date_s :: "nat \<Rightarrow> int"
  RANDOM :: "nat \<Rightarrow> nat"
  curl :: "nat \<Rightarrow> string list \<Rightarrow> string \<times> nat"

datatype event =
    Journey string
  | Request_ok string string string
  | Request_failed string string string
  | Progress int int int
  | Completed int int

record sched =
  date_calls :: nat
  random_draws :: nat
  issued :: "string list"
  request_count :: int
  stdout :: "event list"

definition PYTHON_SERVICE :: string where "PYTHON_SERVICE = ''http://localhost:8001''"
definition GO_SERVICE :: string where "GO_SERVICE = ''http://localhost:8002''"
definition RUST_SERVICE :: string where "RUST_SERVICE = ''http://localhost:8003''"
definition NEXTJS_FRONTEND :: string where "NEXTJS_FRONTEND = ''http://localhost:3001''"

text \<open>\<open>DURATION=${1:-300}\<close>: the first argument, 300 when there is none.\<close>

definition DURATION_of :: "int option \<Rightarrow> int" where
  "DURATION_of arg1 = (case arg1 of None \<Rightarrow> 300 | Some d \<Rightarrow> d)"

definition echo :: "event \<Rightarrow> sched \<Rightarrow> sched" where
  "echo e s = s\<lparr>stdout := stdout s @ [e]\<rparr>"

text \<open>Under \<open>set -e\<close> a command that returns a status other than 0 ends the script.\<close>

definition errexit :: "nat \<Rightarrow> sched \<Rightarrow> nat + sched" where
  "errexit status s = (if status = 0 then Inr s else Inl status)"

definition and_then :: "nat + sched \<Rightarrow> (sched \<Rightarrow> nat + sched) \<Rightarrow> nat + sched" where
  "and_then r f = (case r of Inl status \<Rightarrow> Inl status | Inr s \<Rightarrow> f s)"

subsection \<open>make_request\<close>

text \<open>The options \<open>curl\<close> is run with, and the whole argument list.\<close>

definition curl_options :: "string list" where
  "curl_options = [''-s'', ''-o'', ''/dev/null'', ''-w'', ''%{http_code}'']"

definition curl_argv :: "string \<Rightarrow> string list" where
  "curl_argv endpoint = curl_options @ [endpoint]"

text \<open>The options by which a \<open>curl\<close> command line bounds the time of a transfer.\<close>

definition starts_with :: "string \<Rightarrow> string \<Rightarrow> bool" where
  "starts_with p str = (take (length p) str = p)"

definition sets_timeout :: "string list \<Rightarrow> bool" where
  "sets_timeout argv =
     list_ex (\<lambda>a. starts_with ''-m'' a \<or> starts_with ''--max-time'' a
                  \<or> starts_with ''--connect-timeout'' a) argv"

text \<open>A command substitution drops the newlines at the end of what was printed.\<close>

definition strip_newlines :: "string \<Rightarrow> string" where
  "strip_newlines out = rev (dropWhile (\<lambda>c. c = CHR 0x0A) (rev out))"

text \<open>
  \<open>$(curl -s -o /dev/null -w "%{http_code}" "$endpoint" 2>/dev/null || echo "000")\<close>:
  the text the substitution gives for what \<open>curl\<close> printed and returned (\<open>echo\<close> runs
  when \<open>curl\<close> returns a status other than 0, and adds its line to what \<open>curl\<close> printed),
  and the status of the list, that of \<open>curl\<close> when it is 0 and that of \<open>echo\<close>, 0,
  otherwise.
\<close>

definition substituted :: "string \<times> nat \<Rightarrow> string" where
  "substituted printed =
     (let (out, status) = printed
      in if status = 0 then strip_newlines out
         else strip_newlines (out @ ''000'' @ [CHR 0x0A]))"

definition curl_or_000 :: "sh_env \<Rightarrow> string \<Rightarrow> sched \<Rightarrow> string \<times> nat \<times> sched" where
  "curl_or_000 env endpoint s =
     (let printed = curl env (length (issued s)) (curl_argv endpoint);
          s = s\<lparr>issued := issued s @ [endpoint]\<rparr>
      in (substituted printed, 0, s))"

definition make_request ::
  "sh_env \<Rightarrow> string \<Rightarrow> string \<Rightarrow> string \<Rightarrow> sched \<Rightarrow> nat + sched" where
  "make_request env service_name endpoint description s =
     (let (response_code, status, s) = curl_or_000 env endpoint s
      in and_then (errexit status s) (\<lambda>s.
           if response_code = ''200'' \<or> response_code = ''500''
           then Inr (echo (Request_ok service_name description response_code) s)
           else Inr (echo (Request_failed service_name description response_code) s)))"

text \<open>A run of calls of \<open>make_request\<close>, one after the other.\<close>

fun make_requests ::
  "sh_env \<Rightarrow> (string \<times> string \<times> string) list \<Rightarrow> sched \<Rightarrow> nat + sched" where
  "make_requests env [] s = Inr s"
| "make_requests env ((service_name, endpoint, description) # rest) s =
     and_then (make_request env service_name endpoint description s) (make_requests env rest)"

subsection \<open>user_journey\<close>

text \<open>The test \<open>[[ $str == *"pat"* ]]\<close>.\<close>

fun contains :: "string \<Rightarrow> string \<Rightarrow> bool" where
  "contains pat [] = (pat = [])"
| "contains pat (c # cs) = (starts_with pat (c # cs) \<or> contains pat cs)"

definition user_journey :: "sh_env \<Rightarrow> nat \<Rightarrow> sched \<Rightarrow> nat + sched" where
  "user_journey env journey_type s =
     (if journey_type = 1 then
        make_requests env
          [(''Frontend'', NEXTJS_FRONTEND, ''Load homepage''),
           (''Python'', PYTHON_SERVICE @ ''/'', ''Fetch Python status''),
           (''Go'', GO_SERVICE @ ''/'', ''Fetch Go status''),
           (''Rust'', RUST_SERVICE @ ''/'', ''Fetch Rust status'')]
          (echo (Journey ''Loading Dashboard'') s)
      else if journey_type = 2 then
        make_requests env
          [(''Python'', PYTHON_SERVICE @ ''/data'', ''Fetch Python data''),
           (''Go'', GO_SERVICE @ ''/data'', ''Fetch Go data''),
           (''Rust'', RUST_SERVICE @ ''/data'', ''Fetch Rust data'')]
          (echo (Journey ''Fetching Data'') s)
      else if journey_type = 3 then
        make_requests env
          [(''Python'', PYTHON_SERVICE @ ''/error'', ''Trigger Python error'')]
          (echo (Journey ''Error Handling'') s)
      else if journey_type = 4 then
        make_requests env
          [(''Python'', PYTHON_SERVICE @ ''/'', ''Python root''),
           (''Python'', PYTHON_SERVICE @ ''/data'', ''Python data''),
           (''Python'', PYTHON_SERVICE @ ''/data'', ''Python data again'')]
          (echo (Journey ''Python Heavy Load'') s)
      else if journey_type = 5 then
        make_requests env
          [(''Go'', GO_SERVICE @ ''/'', ''Go root''),
           (''Go'', GO_SERVICE @ ''/data'', ''Go data''),
           (''Go'', GO_SERVICE @ ''/data'', ''Go data again'')]
          (echo (Journey ''Go Heavy Load'') s)
      else if journey_type = 6 then
        make_requests env
          [(''Rust'', RUST_SERVICE @ ''/'', ''Rust root''),
           (''Rust'', RUST_SERVICE @ ''/data'', ''Rust data''),
           (''Rust'', RUST_SERVICE @ ''/data'', ''Rust data again'')]
          (echo (Journey ''Rust Heavy Load'') s)
      else if journey_type = 7 then
        (let services = [PYTHON_SERVICE, GO_SERVICE, RUST_SERVICE];
             endpoints = [''/'', ''/data''];
             random_service = services ! (RANDOM env (random_draws s) mod length services);
             random_endpoint =
               endpoints ! (RANDOM env (random_draws s + 1) mod length endpoints);
             s = s\<lparr>random_draws := random_draws s + 2\<rparr>;
             service_name =
               (if contains ''8001'' random_service then ''Python''
                else if contains ''8002'' random_service then ''Go''
                else ''Rust'')
         in make_requests env
              [(service_name, random_service @ random_endpoint, ''Random call'')] s)
      else if journey_type = 8 then
        make_requests env
          [(''Go'', GO_SERVICE @ ''/error'', ''Trigger Go error''),
           (''Rust'', RUST_SERVICE @ ''/error'', ''Trigger Rust error'')]
          (echo (Journey ''Multi-Service Errors'') s)
      else Inr s)"

subsection \<open>The main loop\<close>

text \<open>The journey the loop runs for a value of \<open>random\<close>, and what it adds to
  \<open>request_count\<close> after it.\<close>

definition select_journey :: "nat \<Rightarrow> nat \<times> int" where
  "select_journey random =
     (if random < 25 then (1, 4)
      else if random < 45 then (2, 3)
      else if random < 50 then (3, 1)
      else if random < 60 then (4, 3)
      else if random < 70 then (5, 3)
      else if random < 80 then (6, 3)
      else if random < 85 then (8, 2)
      else (7, 1))"




datatype loop_step = Break sched | Next sched | Aborted nat

definition iteration :: "sh_env \<Rightarrow> int \<Rightarrow> int \<Rightarrow> sched \<Rightarrow> loop_step" where
  "iteration env DURATION start_time s =
     (let current_time = date_s env (date_calls s);
          s = s\<lparr>date_calls := date_calls s + 1\<rparr>;
          elapsed = current_time - start_time
      in if elapsed \<ge> DURATION
         then Break (echo (Completed (request_count s) elapsed) s)
         else
           (let random = RANDOM env (random_draws s) mod 100;
                s = s\<lparr>random_draws := random_draws s + 1\<rparr>;
                (journey_type, n) = select_journey random
            in case user_journey env journey_type s of
                 Inl status \<Rightarrow> Aborted status
               | Inr s \<Rightarrow>
                   (let s = s\<lparr>request_count := request_count s + n\<rparr>;
                        s = (if request_count s mod 20 = 0
                             then echo (Progress elapsed DURATION (request_count s)) s
                             else s)
                    in Next s)))"

text \<open>
  \<open>while true\<close>, with fuel: \<open>None\<close> is the loop still running when the fuel is used up.
\<close>

fun main_loop :: "nat \<Rightarrow> sh_env \<Rightarrow> int \<Rightarrow> int \<Rightarrow> sched \<Rightarrow> (nat + sched) option" where
  "main_loop 0 env DURATION start_time s = None"
| "main_loop (Suc fuel) env DURATION start_time s =
     (case iteration env DURATION start_time s of
        Break s' \<Rightarrow> Some (Inr s')
      | Aborted status \<Rightarrow> Some (Inl status)
      | Next s' \<Rightarrow> main_loop fuel env DURATION start_time s')"

text \<open>The state in which the loop is entered: the clock was read once, for \<open>start_time\<close>.\<close>

definition loop_entry :: sched where
  "loop_entry = \<lparr>date_calls = 1, random_draws = 0, issued = [], request_count = 0, stdout = []\<rparr>"

definition generate_traffic :: "nat \<Rightarrow> sh_env \<Rightarrow> int option \<Rightarrow> (nat + sched) option" where
  "generate_traffic fuel env arg1 =
     main_loop fuel env (DURATION_of arg1) (date_s env 0) loop_entry"

text \<open>The loop after \<open>k\<close> iterations (or where it stopped before).\<close>

fun after_iterations :: "nat \<Rightarrow> sh_env \<Rightarrow> int \<Rightarrow> int \<Rightarrow> sched \<Rightarrow> loop_step" where
  "after_iterations 0 env DURATION start_time s = Next s"
| "after_iterations (Suc k) env DURATION start_time s =
     (case after_iterations k env DURATION start_time s of
        Next s' \<Rightarrow> iteration env DURATION start_time s'
      | stopped \<Rightarrow> stopped)"

text \<open>An environment to try the script on: the clock advances by one second at every
  reading, \<open>$RANDOM\<close> counts up in steps of 7, and every third \<open>curl\<close> fails to connect.\<close>

definition sample_sh_env :: sh_env where
  "sample_sh_env =
     \<lparr>date_s = (\<lambda>k. 1000 + int k),
      RANDOM = (\<lambda>k. 7 * k),
      curl = (\<lambda>k argv. if k mod 3 = 2 then (''000'', 7) else (''200'', 0))\<rparr>"

section \<open>Browser telemetry (initializeTelemetry)\<close>

text \<open>
  The module keeps one variable, \<open>isInitialized\<close>. Beside it the record counts what the
  function has built in the page so far: tracer providers, exporters, providers
  registered, and calls of \<open>registerInstrumentations\<close>; \<open>console\<close> is what was logged.
  Each call into the OpenTelemetry SDK inside the \<open>try\<close> block may throw; which do is
  a parameter of the call.
\<close>

record browser =
  isInitialized :: bool
  providers :: nat
  exporters :: nat
  registered :: nat
  instrumentations :: nat
  console :: "string list"

datatype sdk_call =
    MakeResource | MakeProvider | MakeExporter | AddSpanProcessor | RegisterProvider
  | RegisterInstrumentations

datatype try_result = Returned browser | Thrown browser

definition try_block :: "(sdk_call \<Rightarrow> bool) \<Rightarrow> browser \<Rightarrow> try_result" where
  "try_block throws b =
     (if throws MakeResource then Thrown b
      else if throws MakeProvider then Thrown b
      else let b = b\<lparr>providers := providers b + 1\<rparr> in
      if throws MakeExporter then Thrown b
      else let b = b\<lparr>exporters := exporters b + 1\<rparr> in
      if throws AddSpanProcessor then Thrown b
      else if throws RegisterProvider then Thrown b
      else let b = b\<lparr>registered := registered b + 1\<rparr> in
      if throws RegisterInstrumentations then Thrown b
      else let b = b\<lparr>instrumentations := instrumentations b + 1\<rparr>;
               b = b\<lparr>isInitialized := True\<rparr>
           in Returned
                (b\<lparr>console := console b @ [''Browser OpenTelemetry initialized successfully'']\<rparr>))"

text \<open>\<open>window_defined\<close> is \<open>typeof window !== 'undefined'\<close>.\<close>

definition initializeTelemetry :: "bool \<Rightarrow> (sdk_call \<Rightarrow> bool) \<Rightarrow> browser \<Rightarrow> browser" where
  "initializeTelemetry window_defined throws b =
     (if \<not> window_defined then b
      else if isInitialized b
      then b\<lparr>console := console b @ [''Telemetry already initialized'']\<rparr>
      else (case try_block throws b of
              Returned b' \<Rightarrow> b'
            | Thrown b' \<Rightarrow>
                b'\<lparr>console := console b' @ [''Failed to initialize OpenTelemetry:'']\<rparr>))"

text \<open>The calls made in one page, in order.\<close>

fun calls :: "(bool \<times> (sdk_call \<Rightarrow> bool)) list \<Rightarrow> browser \<Rightarrow> browser" where
  "calls [] b = b"
| "calls ((window_defined, throws) # rest) b =
     calls rest (initializeTelemetry window_defined throws b)"

definition page_load :: browser where
  "page_load = \<lparr>isInitialized = False, providers = 0, exporters = 0, registered = 0,
                 instrumentations = 0, console = []\<rparr>"

section \<open>Properties of the Go service\<close>

lemmas telemetry_calls =
  tracer_Start_def SetAttributes_def span_End_def logJSON_def Counter_Add_def
  Histogram_Record_def

lemmas added = new_spans_def new_logs_def new_counts_def new_durations_def

lemma fill_data_result:
  "fill_data 0 (replicate 10 (JObj [])) =
     [JObj [(''id'', JNum 0), (''value'', JStr ''item-0'')],
      JObj [(''id'', JNum 1), (''value'', JStr ''item-1'')],
      JObj [(''id'', JNum 2), (''value'', JStr ''item-2'')],
      JObj [(''id'', JNum 3), (''value'', JStr ''item-3'')],
      JObj [(''id'', JNum 4), (''value'', JStr ''item-4'')],
      JObj [(''id'', JNum 5), (''value'', JStr ''item-5'')],
      JObj [(''id'', JNum 6), (''value'', JStr ''item-6'')],
      JObj [(''id'', JNum 7), (''value'', JStr ''item-7'')],
      JObj [(''id'', JNum 8), (''value'', JStr ''item-8'')],
      JObj [(''id'', JNum 9), (''value'', JStr ''item-9'')]]"
  by code_simp

lemma length_fill_data: "length (fill_data i data) = length data"
  by (induction i data rule: fill_data.induct)
     (simp del: fill_data.simps add: fill_data.simps [of i data for i data])

text \<open>The telemetry after each handler, whatever it was before.\<close>

lemma rootHandler_telemetry:
  "snd (rootHandler env r (w, t)) =
     t\<lparr>spans := spans t @
          [\<lparr>span_name = ''root_handler'',
            span_attributes =
              [(''http.method'', AttrString ''GET''), (''http.route'', AttrString ''/'')],
            span_ended = True\<rparr>],
       log_lines := log_lines t @
          [log_entry env (req_ctx r) ''INFO'' ''Processing root request'' []],
       requestCounter := requestCounter t @
          [(1, [(''method'', AttrString ''GET''), (''endpoint'', AttrString ''/'')])],
       requestDuration := requestDuration t @
          [(elapsed_ns env,
            [(''method'', AttrString ''GET''), (''endpoint'', AttrString ''/'')])]\<rparr>"
  by (simp add: rootHandler_def telemetry_calls Let_def)

lemma dataHandler_telemetry:
  "snd (dataHandler env r (w, t)) =
     t\<lparr>spans := spans t @
          [\<lparr>span_name = ''get_data_handler'',
            span_attributes =
              [(''http.method'', AttrString ''GET''), (''http.route'', AttrString ''/data'')],
            span_ended = True\<rparr>,
           \<lparr>span_name = ''database_query'', span_attributes = [], span_ended = True\<rparr>],
       log_lines := log_lines t @
          [log_entry env (req_ctx r) ''INFO'' ''Fetching data'' [],
           log_entry env (req_ctx r) ''INFO'' ''Retrieved items'' [(''item_count'', JNum 10)]],
       requestCounter := requestCounter t @
          [(1, [(''method'', AttrString ''GET''), (''endpoint'', AttrString ''/data'')])],
       requestDuration := requestDuration t @
          [(elapsed_ns env,
            [(''method'', AttrString ''GET''), (''endpoint'', AttrString ''/data'')])]\<rparr>"
  by (simp add: dataHandler_def telemetry_calls Let_def length_fill_data nth_append
        list_update_append del: fill_data.simps)

lemma errorHandler_telemetry:
  "snd (errorHandler env r (w, t)) =
     t\<lparr>spans := spans t @
          [\<lparr>span_name = ''error_handler'',
            span_attributes =
              [(''http.method'', AttrString ''GET''), (''http.route'', AttrString ''/error''),
               (''error'', AttrBool True)],
            span_ended = True\<rparr>],
       log_lines := log_lines t @
          [log_entry env (req_ctx r) ''ERROR'' ''Simulated error occurred''
             [(''error_type'', JStr ''SimulatedError'')]],
       requestCounter := requestCounter t @
          [(1, [(''method'', AttrString ''GET''), (''endpoint'', AttrString ''/error''),
                (''status'', AttrString ''error'')])]\<rparr>"
  by (simp add: errorHandler_def telemetry_calls Let_def)

lemma log_entry_level:
  "map_of (log_entry env ctx level message []) ''level'' = Some (JStr level)"
  "map_of (log_entry env ctx level message [(''item_count'', v)]) ''level'' = Some (JStr level)"
  "map_of (log_entry env ctx level message [(''error_type'', v)]) ''level'' = Some (JStr level)"
  by (simp_all add: log_entry_def Let_def update_conv' split: option.split)

lemma log_entry_item_count:
  "map_of (log_entry env ctx level message []) ''item_count'' = None"
  "map_of (log_entry env ctx level message [(''item_count'', v)]) ''item_count'' = Some v"
  by (simp_all add: log_entry_def Let_def update_conv' split: option.split)

text \<open>The responses of the two handlers, on a writer nothing was written to.\<close>

lemma errorHandler_response:
  assumes "rw_status w = None" and "rw_body w = []"
  shows "rw_status (fst (errorHandler env r (w, t))) = Some 500"
    and "rw_body (fst (errorHandler env r (w, t))) =
           [JObj [(''error'', JStr ''This is a simulated error'')]]"
    and "map_of (rw_header (fst (errorHandler env r (w, t)))) ''Content-Type'' =
           Some ''application/json''"
  using assms
  by (simp_all add: errorHandler_def tracer_Start_def Let_def Header_Set_def WriteHeader_def
        Encode_def update_conv')

lemma dataHandler_response:
  assumes "rw_status w = None" and "rw_body w = []"
  shows "rw_status (fst (dataHandler env r (w, t))) = Some 200"
    and "rw_body (fst (dataHandler env r (w, t))) =
           [JObj [(''data'', JArr (fill_data 0 (replicate 10 (JObj [])))),
                  (''count'', JNum 10)]]"
    and "map_of (rw_header (fst (dataHandler env r (w, t)))) ''Content-Type'' =
           Some ''application/json''"
  using assms
  by (simp_all add: dataHandler_def tracer_Start_def Let_def Header_Set_def WriteHeader_def
        Encode_def update_conv' length_fill_data del: fill_data.simps)

lemma serve_GET:
  "serve env (GET ''/'' r) t = rootHandler env (GET ''/'' r) (cors_writer, t)"
  "serve env (GET ''/data'' r) t = dataHandler env (GET ''/data'' r) (cors_writer, t)"
  "serve env (GET ''/error'' r) t = errorHandler env (GET ''/error'' r) (cors_writer, t)"
  by (simp_all add: serve_def enableCORS_def mux_def GET_def Header_Set_def fresh_writer_def
        cors_writer_def)

lemma cors_writer_fresh: "rw_status cors_writer = None" "rw_body cors_writer = []"
  by (simp_all add: cors_writer_def)

text \<open>
  C1, as the code has it. Every span a handler starts is ended when the handler returns:
  one span in the root and error handlers, two in the data handler (its own and
  \<open>database_query\<close>). Every handler writes at least one log line (the data handler two)
  and adds 1 to the request counter exactly once. The root and data handlers record
  exactly one observation in the duration histogram.
\<close>

theorem handler_telemetry:
  "map span_ended (new_spans t (snd (rootHandler env r (w, t)))) = [True] \<and>
   length (new_logs t (snd (rootHandler env r (w, t)))) = 1 \<and>
   map fst (new_counts t (snd (rootHandler env r (w, t)))) = [1] \<and>
   length (new_durations t (snd (rootHandler env r (w, t)))) = 1 \<and>
   map span_ended (new_spans t (snd (dataHandler env r (w, t)))) = [True, True] \<and>
   length (new_logs t (snd (dataHandler env r (w, t)))) = 2 \<and>
   map fst (new_counts t (snd (dataHandler env r (w, t)))) = [1] \<and>
   length (new_durations t (snd (dataHandler env r (w, t)))) = 1 \<and>
   map span_ended (new_spans t (snd (errorHandler env r (w, t)))) = [True] \<and>
   length (new_logs t (snd (errorHandler env r (w, t)))) = 1 \<and>
   map fst (new_counts t (snd (errorHandler env r (w, t)))) = [1]"
  by (simp add: rootHandler_telemetry dataHandler_telemetry errorHandler_telemetry added)

text \<open>
  C1 as stated fails: a request for \<open>/data\<close> starts two spans, and a request for
  \<open>/error\<close> records no observation in the duration histogram.
\<close>

theorem handler_telemetry_counterexample:
  "length (new_spans no_telemetry
     (snd (serve sample_env (GET ''/data'' sample_request) no_telemetry))) = 2 \<and>
   length (new_durations no_telemetry
     (snd (serve sample_env (GET ''/error'' sample_request) no_telemetry))) = 0"
  by (simp add: serve_GET dataHandler_telemetry errorHandler_telemetry added)

lemma log_entry_error:
  "map_of (log_entry env ctx level message [(''error_type'', v)]) ''message'' =
     Some (JStr message)"
  "map_of (log_entry env ctx level message [(''error_type'', v)]) ''error_type'' = Some v"
  "map_of (log_entry env ctx level message [(''error_type'', v)]) ''service'' =
     Some (JStr ''go-service'')"
  by (simp_all add: log_entry_def Let_def update_conv' split: option.split)

text \<open>
  C3, at the code: a GET request for \<open>/error\<close> is answered with status 500 and the JSON
  body \<open>{"error": "This is a simulated error"}\<close>, and the handler emits its span (ended,
  marked as an error), its log line (level ERROR, with the message and the error type)
  and one increment of the request counter, with status error. It records no
  observation in the duration histogram, which the root and data handlers record: the
  metric part of what the claim asks of the handler is not complete.
\<close>

theorem error_endpoint:
  "rw_status (fst (serve env (GET ''/error'' r) t)) = Some 500 \<and>
   rw_body (fst (serve env (GET ''/error'' r) t)) =
     [JObj [(''error'', JStr ''This is a simulated error'')]] \<and>
   map_of (rw_header (fst (serve env (GET ''/error'' r) t))) ''Content-Type'' =
     Some ''application/json'' \<and>
   new_spans t (snd (serve env (GET ''/error'' r) t)) =
     [\<lparr>span_name = ''error_handler'',
       span_attributes =
         [(''http.method'', AttrString ''GET''), (''http.route'', AttrString ''/error''),
          (''error'', AttrBool True)],
       span_ended = True\<rparr>] \<and>
   map (\<lambda>e. (map_of e ''level'', map_of e ''message'', map_of e ''error_type'',
              map_of e ''service''))
     (new_logs t (snd (serve env (GET ''/error'' r) t))) =
     [(Some (JStr ''ERROR''), Some (JStr ''Simulated error occurred''),
       Some (JStr ''SimulatedError''), Some (JStr ''go-service''))] \<and>
   new_counts t (snd (serve env (GET ''/error'' r) t)) =
     [(1, [(''method'', AttrString ''GET''), (''endpoint'', AttrString ''/error''),
           (''status'', AttrString ''error'')])] \<and>
   new_durations t (snd (serve env (GET ''/error'' r) t)) = [] \<and>
   length (new_durations t (snd (serve env (GET ''/'' r) t))) = 1 \<and>
   length (new_durations t (snd (serve env (GET ''/data'' r) t))) = 1"
  by (simp add: serve_GET errorHandler_response cors_writer_fresh errorHandler_telemetry
        rootHandler_telemetry dataHandler_telemetry added log_entry_level log_entry_error)

text \<open>
  C4: a GET request for \<open>/data\<close> is answered with status 200 and a JSON body whose
  \<open>data\<close> is the ten items with \<open>id\<close> 0 to 9 and \<open>value\<close> item-0 to item-9 and whose
  \<open>count\<close> is 10; the handler records one observation in the duration histogram, with
  the label endpoint=/data, and its second log line has \<open>item_count\<close> 10.
\<close>

theorem data_endpoint:
  "rw_status (fst (serve env (GET ''/data'' r) t)) = Some 200 \<and>
   rw_body (fst (serve env (GET ''/data'' r) t)) =
     [JObj [(''data'', JArr
              [JObj [(''id'', JNum 0), (''value'', JStr ''item-0'')],
               JObj [(''id'', JNum 1), (''value'', JStr ''item-1'')],
               JObj [(''id'', JNum 2), (''value'', JStr ''item-2'')],
               JObj [(''id'', JNum 3), (''value'', JStr ''item-3'')],
               JObj [(''id'', JNum 4), (''value'', JStr ''item-4'')],
               JObj [(''id'', JNum 5), (''value'', JStr ''item-5'')],
               JObj [(''id'', JNum 6), (''value'', JStr ''item-6'')],
               JObj [(''id'', JNum 7), (''value'', JStr ''item-7'')],
               JObj [(''id'', JNum 8), (''value'', JStr ''item-8'')],
               JObj [(''id'', JNum 9), (''value'', JStr ''item-9'')]]),
            (''count'', JNum 10)]] \<and>
   new_durations t (snd (serve env (GET ''/data'' r) t)) =
     [(elapsed_ns env, [(''method'', AttrString ''GET''), (''endpoint'', AttrString ''/data'')])] \<and>
   map (\<lambda>e. map_of e ''item_count'') (new_logs t (snd (serve env (GET ''/data'' r) t))) =
     [None, Some (JNum 10)]"
  by (simp add: serve_GET dataHandler_response cors_writer_fresh dataHandler_telemetry
        added log_entry_item_count fill_data_result del: fill_data.simps)

text \<open>
  C6, as the code has it. Every counter increment and every histogram observation of a
  handler has the labels \<open>method\<close> and \<open>endpoint\<close>. The label \<open>status\<close> is on the counter
  increment of the error handler only; the samples of the root and data handlers have
  no label for the outcome.
\<close>

theorem metric_labels:
  "new_counts t (snd (rootHandler env r (w, t))) =
     [(1, [(''method'', AttrString ''GET''), (''endpoint'', AttrString ''/'')])] \<and>
   new_durations t (snd (rootHandler env r (w, t))) =
     [(elapsed_ns env, [(''method'', AttrString ''GET''), (''endpoint'', AttrString ''/'')])] \<and>
   new_counts t (snd (dataHandler env r (w, t))) =
     [(1, [(''method'', AttrString ''GET''), (''endpoint'', AttrString ''/data'')])] \<and>
   new_durations t (snd (dataHandler env r (w, t))) =
     [(elapsed_ns env, [(''method'', AttrString ''GET''), (''endpoint'', AttrString ''/data'')])] \<and>
   new_counts t (snd (errorHandler env r (w, t))) =
     [(1, [(''method'', AttrString ''GET''), (''endpoint'', AttrString ''/error''),
           (''status'', AttrString ''error'')])]"
  by (simp add: rootHandler_telemetry dataHandler_telemetry errorHandler_telemetry added)

text \<open>
  C6 as stated fails: the counter increment and the histogram observation of a request
  for \<open>/\<close> have no label \<open>status\<close>.
\<close>

theorem metric_labels_counterexample:
  "map (\<lambda>sample. map_of (snd sample) ''status'')
     (new_counts no_telemetry (snd (serve sample_env (GET ''/'' sample_request) no_telemetry)))
     = [None] \<and>
   map (\<lambda>sample. map_of (snd sample) ''status'')
     (new_durations no_telemetry (snd (serve sample_env (GET ''/'' sample_request) no_telemetry)))
     = [None]"
  by (simp add: serve_GET rootHandler_telemetry added)

section \<open>Properties of the traffic generator\<close>

subsection \<open>What a call of make_request records\<close>

lemma substituted_failed: "substituted (out, Suc k) = out @ ''000''"
  by (simp add: substituted_def strip_newlines_def)

lemma failed_not_200: "out @ ''000'' \<noteq> ''200''" "out @ ''000'' \<noteq> ''500''"
proof -
  show "out @ ''000'' \<noteq> ''200''"
  proof
    assume a: "out @ ''000'' = ''200''"
    then have "length (out @ ''000'') = length ''200''" by simp
    then have "out = []" by simp
    with a show False by simp
  qed
  show "out @ ''000'' \<noteq> ''500''"
  proof
    assume a: "out @ ''000'' = ''500''"
    then have "length (out @ ''000'') = length ''500''" by simp
    then have "out = []" by simp
    with a show False by simp
  qed
qed

lemma make_request_eq:
  "make_request env service_name endpoint description s =
     Inr (echo (if substituted (curl env (length (issued s)) (curl_argv endpoint)) = ''200''
                   \<or> substituted (curl env (length (issued s)) (curl_argv endpoint)) = ''500''
                then Request_ok service_name description
                       (substituted (curl env (length (issued s)) (curl_argv endpoint)))
                else Request_failed service_name description
                       (substituted (curl env (length (issued s)) (curl_argv endpoint))))
            (s\<lparr>issued := issued s @ [endpoint]\<rparr>))"
  by (simp add: make_request_def curl_or_000_def errexit_def and_then_def Let_def)

lemma echo_fields:
  "issued (echo e s) = issued s" "request_count (echo e s) = request_count s"
  "random_draws (echo e s) = random_draws s" "date_calls (echo e s) = date_calls s"
  by (simp_all add: echo_def)



subsection \<open>The requests of a journey\<close>

lemma journey_1:
  "\<exists>s'. user_journey env 1 s = Inr s' \<and> request_count s' = request_count s \<and>
     issued s' = issued s @
       [NEXTJS_FRONTEND, PYTHON_SERVICE @ ''/'', GO_SERVICE @ ''/'', RUST_SERVICE @ ''/'']"
  by (simp add: user_journey_def make_request_eq and_then_def echo_fields)

lemma journey_2:
  "\<exists>s'. user_journey env 2 s = Inr s' \<and> request_count s' = request_count s \<and>
     issued s' = issued s @
       [PYTHON_SERVICE @ ''/data'', GO_SERVICE @ ''/data'', RUST_SERVICE @ ''/data'']"
  by (simp add: user_journey_def make_request_eq and_then_def echo_fields)

lemma journey_3:
  "\<exists>s'. user_journey env 3 s = Inr s' \<and> request_count s' = request_count s \<and>
     issued s' = issued s @ [PYTHON_SERVICE @ ''/error'']"
  by (simp add: user_journey_def make_request_eq and_then_def echo_fields)

lemma journey_4:
  "\<exists>s'. user_journey env 4 s = Inr s' \<and> request_count s' = request_count s \<and>
     issued s' = issued s @
       [PYTHON_SERVICE @ ''/'', PYTHON_SERVICE @ ''/data'', PYTHON_SERVICE @ ''/data'']"
  by (simp add: user_journey_def make_request_eq and_then_def echo_fields)

lemma journey_5:
  "\<exists>s'. user_journey env 5 s = Inr s' \<and> request_count s' = request_count s \<and>
     issued s' = issued s @ [GO_SERVICE @ ''/'', GO_SERVICE @ ''/data'', GO_SERVICE @ ''/data'']"
  by (simp add: user_journey_def make_request_eq and_then_def echo_fields)

lemma journey_6:
  "\<exists>s'. user_journey env 6 s = Inr s' \<and> request_count s' = request_count s \<and>
     issued s' = issued s @
       [RUST_SERVICE @ ''/'', RUST_SERVICE @ ''/data'', RUST_SERVICE @ ''/data'']"
  by (simp add: user_journey_def make_request_eq and_then_def echo_fields)

lemma journey_7:
  "\<exists>s' url. user_journey env 7 s = Inr s' \<and> request_count s' = request_count s \<and>
     issued s' = issued s @ [url]"
  by (simp add: user_journey_def Let_def make_request_eq and_then_def echo_fields)

lemma journey_8:
  "\<exists>s'. user_journey env 8 s = Inr s' \<and> request_count s' = request_count s \<and>
     issued s' = issued s @ [GO_SERVICE @ ''/error'', RUST_SERVICE @ ''/error'']"
  by (simp add: user_journey_def make_request_eq and_then_def echo_fields)

lemma select_journey_cases:
  "select_journey random \<in> {(1, 4), (2, 3), (3, 1), (4, 3), (5, 3), (6, 3), (8, 2), (7, 1)}"
  by (simp add: select_journey_def)

text \<open>The journey the loop selects issues as many requests as the loop then adds.\<close>

lemma selected_journey_state:
  "\<exists>s' urls. user_journey env (fst (select_journey random)) s = Inr s'
      \<and> request_count s' = request_count s
      \<and> issued s' = issued s @ urls
      \<and> int (length urls) = snd (select_journey random)"
proof -
  consider "select_journey random = (1, 4)" | "select_journey random = (2, 3)"
    | "select_journey random = (3, 1)" | "select_journey random = (4, 3)"
    | "select_journey random = (5, 3)" | "select_journey random = (6, 3)"
    | "select_journey random = (8, 2)" | "select_journey random = (7, 1)"
    using select_journey_cases [of random] by auto
  then show ?thesis
  proof cases
    case 1
    with journey_1 [of env s] show ?thesis by auto
  next
    case 2
    with journey_2 [of env s] show ?thesis by auto
  next
    case 3
    with journey_3 [of env s] show ?thesis by auto
  next
    case 4
    with journey_4 [of env s] show ?thesis by auto
  next
    case 5
    with journey_5 [of env s] show ?thesis by auto
  next
    case 6
    with journey_6 [of env s] show ?thesis by auto
  next
    case 7
    with journey_8 [of env s] show ?thesis by auto
  next
    case 8
    with journey_7 [of env s] show ?thesis by auto
  qed
qed

subsection \<open>The loop\<close>

lemma iteration_inv:
  assumes "request_count s = int (length (issued s))"
  shows "case iteration env DURATION start_time s of
           Next s' \<Rightarrow> request_count s' = int (length (issued s'))
         | Break s' \<Rightarrow> request_count s' = int (length (issued s'))
         | Aborted status \<Rightarrow> False"
proof (cases "date_s env (date_calls s) - start_time \<ge> DURATION")
  case True
  then show ?thesis using assms by (simp add: iteration_def echo_def Let_def)
next
  case False
  define s0 where "s0 = s\<lparr>date_calls := date_calls s + 1, random_draws := random_draws s + 1\<rparr>"
  define random where "random = RANDOM env (random_draws s) mod 100"
  obtain s' urls where j: "user_journey env (fst (select_journey random)) s0 = Inr s'"
     "request_count s' = request_count s0"
     "issued s' = issued s0 @ urls" "int (length urls) = snd (select_journey random)"
    using selected_journey_state by blast
  show ?thesis
    using False assms j
    by (simp add: iteration_def Let_def s0_def random_def split_def echo_def)
qed

lemma after_iterations_inv:
  assumes "request_count s = int (length (issued s))"
  shows "case after_iterations k env DURATION start_time s of
           Next s' \<Rightarrow> request_count s' = int (length (issued s'))
         | Break s' \<Rightarrow> request_count s' = int (length (issued s'))
         | Aborted status \<Rightarrow> False"
proof (induction k)
  case 0
  show ?case using assms by simp
next
  case (Suc k)
  show ?case
  proof (cases "after_iterations k env DURATION start_time s")
    case (Next s')
    with Suc have "request_count s' = int (length (issued s'))" by simp
    from iteration_inv [OF this] Next show ?thesis by simp
  next
    case (Break s')
    with Suc show ?thesis by simp
  next
    case (Aborted st)
    with Suc show ?thesis by simp
  qed
qed

lemma iteration_not_aborted: "iteration env DURATION start_time s \<noteq> Aborted status"
proof (cases "date_s env (date_calls s) - start_time \<ge> DURATION")
  case True
  then show ?thesis by (simp add: iteration_def Let_def)
next
  case False
  define s0 where "s0 = s\<lparr>date_calls := date_calls s + 1, random_draws := random_draws s + 1\<rparr>"
  define random where "random = RANDOM env (random_draws s) mod 100"
  obtain s' where "user_journey env (fst (select_journey random)) s0 = Inr s'"
    using selected_journey_state by blast
  then show ?thesis
    using False by (simp add: iteration_def Let_def s0_def random_def split_def)
qed

lemma after_iterations_not_aborted:
  "after_iterations k env DURATION start_time s \<noteq> Aborted status"
proof (induction k)
  case 0
  show ?case by simp
next
  case (Suc k)
  then show ?case
    by (cases "after_iterations k env DURATION start_time s")
       (simp_all add: iteration_not_aborted)
qed

subsection \<open>The selection of a journey\<close>















text \<open>
  C7: when the first argument is 0 and the clock does not go back between the reading
  for \<open>start_time\<close> and the first reading in the loop, the script ends in the first
  iteration of the loop: it has run no journey and issued no request, and it reports
  0 requests sent.
\<close>

theorem duration_zero_run:
  assumes "date_s env 0 \<le> date_s env 1"
  shows "generate_traffic (Suc fuel) env (Some 0) =
     Some (Inr \<lparr>date_calls = 2, random_draws = 0, issued = [], request_count = 0,
                 stdout = [Completed 0 (date_s env 1 - date_s env 0)]\<rparr>)"
  using assms
  by (simp add: generate_traffic_def DURATION_of_def iteration_def loop_entry_def echo_def
        Let_def)

theorem duration_zero_run_witness:
  "date_s sample_sh_env 0 \<le> date_s sample_sh_env 1 \<and>
   generate_traffic (Suc 0) sample_sh_env (Some 0) =
     Some (Inr \<lparr>date_calls = 2, random_draws = 0, issued = [], request_count = 0,
                 stdout = [Completed 0 1]\<rparr>)"
proof -
  have h: "date_s sample_sh_env 0 \<le> date_s sample_sh_env 1"
    by (simp add: sample_sh_env_def)
  show ?thesis
    using h duration_zero_run [OF h, of 0] by (simp add: sample_sh_env_def)
qed

text \<open>
  C8, as the code has it. \<open>curl\<close> is run with no option that bounds the time of the
  call. A call for which \<open>curl\<close> returns a status other than 0 (time-out of the system,
  connection refused, no response) is printed as a failed call, with what \<open>curl\<close> printed
  followed by 000 as its status, and the script goes on: no iteration of the loop ends
  the script through \<open>set -e\<close>.
\<close>

theorem transport_failure_recorded:
  assumes "curl env (length (issued s)) (curl_argv endpoint) = (out, Suc k)"
  shows "make_request env service_name endpoint description s =
           Inr (echo (Request_failed service_name description (out @ ''000''))
                  (s\<lparr>issued := issued s @ [endpoint]\<rparr>)) \<and>
         after_iterations n env DURATION start_time s0 \<noteq> Aborted status \<and>
         \<not> sets_timeout curl_options"
proof -
  have "\<not> sets_timeout curl_options"
    by (simp add: sets_timeout_def curl_options_def starts_with_def)
  then show ?thesis
    using assms
    by (simp add: make_request_eq substituted_failed failed_not_200
          after_iterations_not_aborted)
qed

theorem transport_failure_recorded_witness:
  "curl sample_sh_env (length (issued (loop_entry\<lparr>issued := [''a'', ''b'']\<rparr>)))
     (curl_argv (GO_SERVICE @ ''/data'')) = (''000'', Suc 6) \<and>
   make_request sample_sh_env ''Go'' (GO_SERVICE @ ''/data'') ''Go data''
     (loop_entry\<lparr>issued := [''a'', ''b'']\<rparr>) =
     Inr (echo (Request_failed ''Go'' ''Go data'' ''000000'')
            (loop_entry\<lparr>issued := [''a'', ''b'', GO_SERVICE @ ''/data'']\<rparr>)) \<and>
   after_iterations 3 sample_sh_env 10 1000 loop_entry \<noteq> Aborted 7"
proof -
  have h: "curl sample_sh_env (length (issued (loop_entry\<lparr>issued := [''a'', ''b'']\<rparr>)))
     (curl_argv (GO_SERVICE @ ''/data'')) = (''000'', Suc 6)"
    by (simp add: sample_sh_env_def loop_entry_def)
  show ?thesis
    using h transport_failure_recorded [OF h, of "''Go''" "''Go data''" 3 10 1000 loop_entry 7]
    by (simp add: loop_entry_def)
qed

text \<open>
  C8 as stated fails: the command line of a call, here the one for the Go service's
  \<open>/error\<close>, has no option that sets a time-out.
\<close>

theorem transport_failure_counterexample:
  "\<not> sets_timeout (curl_argv (GO_SERVICE @ ''/error''))"
  by (simp add: sets_timeout_def curl_argv_def curl_options_def starts_with_def GO_SERVICE_def)

text \<open>
  C9: after any number of iterations of the loop, \<open>request_count\<close> is the number of
  requests issued so far, and the script has not been ended by a failing command. The
  journey the loop selects issues exactly as many requests as the loop then adds to
  \<open>request_count\<close>: journey 1 issues 4, journeys 2, 4, 5 and 6 issue 3, journey 8
  issues 2, journeys 3 and 7 issue 1.
\<close>

theorem request_count_invariant:
  "(case after_iterations k env DURATION start_time loop_entry of
      Next s' \<Rightarrow> request_count s' = int (length (issued s'))
    | Break s' \<Rightarrow> request_count s' = int (length (issued s'))
    | Aborted status \<Rightarrow> False) \<and>
   (\<exists>s' urls. user_journey env (fst (select_journey random)) s = Inr s'
      \<and> request_count s' = request_count s
      \<and> issued s' = issued s @ urls
      \<and> int (length urls) = snd (select_journey random)) \<and>
   (\<exists>s' a b c d. user_journey env 1 s = Inr s' \<and> issued s' = issued s @ [a, b, c, d]) \<and>
   (\<exists>s' a b c. user_journey env 2 s = Inr s' \<and> issued s' = issued s @ [a, b, c]) \<and>
   (\<exists>s' a. user_journey env 3 s = Inr s' \<and> issued s' = issued s @ [a]) \<and>
   (\<exists>s' a b c. user_journey env 4 s = Inr s' \<and> issued s' = issued s @ [a, b, c]) \<and>
   (\<exists>s' a b c. user_journey env 5 s = Inr s' \<and> issued s' = issued s @ [a, b, c]) \<and>
   (\<exists>s' a b c. user_journey env 6 s = Inr s' \<and> issued s' = issued s @ [a, b, c]) \<and>
   (\<exists>s' a. user_journey env 7 s = Inr s' \<and> issued s' = issued s @ [a]) \<and>
   (\<exists>s' a b. user_journey env 8 s = Inr s' \<and> issued s' = issued s @ [a, b]) \<and>
   map select_journey [0, 25, 45, 50, 60, 70, 80, 85] =
     [(1, 4), (2, 3), (3, 1), (4, 3), (5, 3), (6, 3), (8, 2), (7, 1)]"
proof -
  have entry: "request_count loop_entry = int (length (issued loop_entry))"
    by (simp add: loop_entry_def)
  have table: "map select_journey [0, 25, 45, 50, 60, 70, 80, 85] =
     [(1, 4), (2, 3), (3, 1), (4, 3), (5, 3), (6, 3), (8, 2), (7, 1)]"
    by (simp add: select_journey_def)
  have j1: "\<exists>s' a b c d. user_journey env 1 s = Inr s' \<and> issued s' = issued s @ [a, b, c, d]"
    using journey_1 [of env s] by blast
  have j2: "\<exists>s' a b c. user_journey env 2 s = Inr s' \<and> issued s' = issued s @ [a, b, c]"
    using journey_2 [of env s] by blast
  have j3: "\<exists>s' a. user_journey env 3 s = Inr s' \<and> issued s' = issued s @ [a]"
    using journey_3 [of env s] by blast
  have j4: "\<exists>s' a b c. user_journey env 4 s = Inr s' \<and> issued s' = issued s @ [a, b, c]"
    using journey_4 [of env s] by blast
  have j5: "\<exists>s' a b c. user_journey env 5 s = Inr s' \<and> issued s' = issued s @ [a, b, c]"
    using journey_5 [of env s] by blast
  have j6: "\<exists>s' a b c. user_journey env 6 s = Inr s' \<and> issued s' = issued s @ [a, b, c]"
    using journey_6 [of env s] by blast
  have j7: "\<exists>s' a. user_journey env 7 s = Inr s' \<and> issued s' = issued s @ [a]"
    using journey_7 [of env s] by blast
  have j8: "\<exists>s' a b. user_journey env 8 s = Inr s' \<and> issued s' = issued s @ [a, b]"
    using journey_8 [of env s] by blast
  from after_iterations_inv [OF entry] selected_journey_state table j1 j2 j3 j4 j5 j6 j7 j8
  show ?thesis by blast
qed

section \<open>Properties of initializeTelemetry\<close>

lemma initialized_call:
  assumes "isInitialized b"
  shows "isInitialized (initializeTelemetry window_defined throws b)"
    and "providers (initializeTelemetry window_defined throws b) = providers b"
    and "exporters (initializeTelemetry window_defined throws b) = exporters b"
    and "registered (initializeTelemetry window_defined throws b) = registered b"
    and "instrumentations (initializeTelemetry window_defined throws b) = instrumentations b"
  using assms by (simp_all add: initializeTelemetry_def)

lemma initialized_calls:
  assumes "isInitialized b"
  shows "isInitialized (calls cs b) \<and> providers (calls cs b) = providers b \<and>
         exporters (calls cs b) = exporters b \<and> registered (calls cs b) = registered b \<and>
         instrumentations (calls cs b) = instrumentations b"
  using assms
proof (induction cs arbitrary: b)
  case Nil
  then show ?case by simp
next
  case (Cons c cs)
  obtain window_defined throws where c: "c = (window_defined, throws)" by (cases c)
  from Cons.prems have "isInitialized (initializeTelemetry window_defined throws b)"
    by (rule initialized_call)
  from Cons.IH [OF this] initialized_call [OF Cons.prems, of window_defined throws] c
  show ?case by simp
qed

text \<open>How often the page logged that telemetry was initialized.\<close>

lemma successes_call:
  assumes "count_list (console b) ''Browser OpenTelemetry initialized successfully'' =
           (if isInitialized b then 1 else 0)"
  shows "count_list (console (initializeTelemetry window_defined throws b))
           ''Browser OpenTelemetry initialized successfully'' =
         (if isInitialized (initializeTelemetry window_defined throws b) then 1 else 0)"
  using assms by (simp add: initializeTelemetry_def try_block_def Let_def)

lemma successes_calls:
  assumes "count_list (console b) ''Browser OpenTelemetry initialized successfully'' =
           (if isInitialized b then 1 else 0)"
  shows "count_list (console (calls cs b)) ''Browser OpenTelemetry initialized successfully'' =
         (if isInitialized (calls cs b) then 1 else 0)"
  using assms
proof (induction cs arbitrary: b)
  case Nil
  then show ?case by simp
next
  case (Cons c cs)
  obtain window_defined throws where c: "c = (window_defined, throws)" by (cases c)
  from Cons.IH [OF successes_call [OF Cons.prems, of window_defined throws]] c
  show ?case by simp
qed

text \<open>
  C10: once a call of \<open>initializeTelemetry\<close> has set \<open>isInitialized\<close>, a further call
  returns at once (in the browser after logging that telemetry is initialized already),
  and the calls that follow, whatever they are, leave it set and build nothing: the numbers of tracer
  providers and exporters made, of providers registered and of instrumentation
  registrations stay what they were. A call in the browser in which no SDK call throws
  sets \<open>isInitialized\<close>. Whatever calls a page makes, it completes initialization at
  most once.
\<close>

theorem initializeTelemetry_once:
  assumes "isInitialized b"
  shows "initializeTelemetry window_defined throws b =
           (if window_defined
            then b\<lparr>console := console b @ [''Telemetry already initialized'']\<rparr>
            else b) \<and>
         isInitialized (calls cs b) \<and> providers (calls cs b) = providers b \<and>
         exporters (calls cs b) = exporters b \<and> registered (calls cs b) = registered b \<and>
         instrumentations (calls cs b) = instrumentations b \<and>
         isInitialized (initializeTelemetry True (\<lambda>c. False) b0) \<and>
         count_list (console (calls cs0 page_load))
           ''Browser OpenTelemetry initialized successfully'' \<le> 1"
proof -
  have "count_list (console page_load) ''Browser OpenTelemetry initialized successfully'' =
        (if isInitialized page_load then 1 else 0)"
    by (simp add: page_load_def)
  from successes_calls [OF this, of cs0]
  have once: "count_list (console (calls cs0 page_load))
           ''Browser OpenTelemetry initialized successfully'' \<le> 1"
    by (simp split: if_splits)
  have "isInitialized (initializeTelemetry True (\<lambda>c. False) b0)"
    by (simp add: initializeTelemetry_def try_block_def Let_def)
  moreover have "initializeTelemetry window_defined throws b =
           (if window_defined
            then b\<lparr>console := console b @ [''Telemetry already initialized'']\<rparr>
            else b)"
    using assms by (simp add: initializeTelemetry_def)
  ultimately show ?thesis
    using once initialized_calls [OF assms, of cs] by simp
qed

theorem initializeTelemetry_once_witness:
  "isInitialized (initializeTelemetry True (\<lambda>c. False) page_load) \<and>
   calls [(True, \<lambda>c. False), (False, \<lambda>c. False), (True, \<lambda>c. c = MakeExporter)]
     (initializeTelemetry True (\<lambda>c. False) page_load) =
     \<lparr>isInitialized = True, providers = 1, exporters = 1, registered = 1,
      instrumentations = 1,
      console = [''Browser OpenTelemetry initialized successfully'',
                 ''Telemetry already initialized'', ''Telemetry already initialized'']\<rparr>"
proof -
  have h: "isInitialized (initializeTelemetry True (\<lambda>c. False) page_load)"
    by (simp add: initializeTelemetry_def try_block_def page_load_def Let_def)
  have "calls [(True, \<lambda>c. False), (False, \<lambda>c. False), (True, \<lambda>c. c = MakeExporter)]
     (initializeTelemetry True (\<lambda>c. False) page_load) =
     \<lparr>isInitialized = True, providers = 1, exporters = 1, registered = 1,
      instrumentations = 1,
      console = [''Browser OpenTelemetry initialized successfully'',
                 ''Telemetry already initialized'', ''Telemetry already initialized'']\<rparr>"
    by (simp add: initializeTelemetry_def try_block_def page_load_def Let_def)
  with h initializeTelemetry_once [OF h,
      where cs = "[(True, \<lambda>c. False), (False, \<lambda>c. False), (True, \<lambda>c. c = MakeExporter)]"]
  show ?thesis by simp
qed

end
